theory Spec2Isabelle
  imports Main "HOL-Library.Word"
begin

section \<open>Data model\<close>

text \<open>
  The package \<^verbatim>\<open>s3\<close> (file \<^verbatim>\<open>client.go\<close>) wraps an HTTP client: \<^verbatim>\<open>Client.Do\<close> probes the
  content length of a seekable body, defaults the \<^verbatim>\<open>Date\<close> header, signs the request and
  hands it to the underlying client. Everything the Go code takes from the standard library
  or from files of the package other than \<^verbatim>\<open>client.go\<close> is a parameter of the model.
\<close>

type_synonym int64 = "64 word"

text \<open>A Go \<^verbatim>\<open>error\<close> value is represented by its message (\<^verbatim>\<open>err.Error()\<close>).\<close>

datatype error = Error string

text \<open>\<^verbatim>\<open>fmt.Errorf(prefix + "%v", err)\<close>: the new message is the prefix followed by the old one.\<close>

definition Errorf :: "string \<Rightarrow> error \<Rightarrow> error" where
  "Errorf prefix e = (case e of Error m \<Rightarrow> Error (prefix @ m))"

text \<open>
  A run-time panic. The Go run time reports a call of a nil function value and a
  dereference of a nil pointer with the same message; the label records the expression
  that was nil.
\<close>

datatype panic = NilFunc string | NilPointer string

datatype 'a outcome = Return 'a | Panic panic

fun map_outcome :: "('a \<Rightarrow> 'b) \<Rightarrow> 'a outcome \<Rightarrow> 'b outcome" where
  "map_outcome f (Return x) = Return (f x)"
| "map_outcome f (Panic p) = Panic p"

subsection \<open>Seekable streams\<close>

text \<open>
  \<^verbatim>\<open>io.Seeker\<close> is an interface; the stream behind it belongs to the caller. The model is a
  byte stream with a current offset, following the contract of \<^verbatim>\<open>io.Seeker\<close> (whence 0, 1, 2
  are relative to the start, the current offset and the end; a negative target is an error;
  a target past the end is allowed). The field \<open>faults\<close> is a schedule of injected failures:
  each call of \<open>Seek\<close> consumes its head, and fails with that error when the head is
  \<open>Some e\<close>, leaving the offset where it was.
\<close>

record seeker =
  bytes :: string
  off :: int64
  faults :: "error option list"

definition seekTarget :: "seeker \<Rightarrow> int64 \<Rightarrow> int \<Rightarrow> error + int64" where
  "seekTarget s offset whence =
     (if whence = 0 then Inr offset
      else if whence = 1 then Inr (off s + offset)
      else if whence = 2 then Inr (of_nat (length (bytes s)) + offset)
      else Inl (Error ''Seek: invalid whence''))"

definition Seek :: "seeker \<Rightarrow> int64 \<Rightarrow> int \<Rightarrow> (error + int64) \<times> seeker" where
  "Seek s offset whence =
     (let s' = s\<lparr>faults := tl (faults s)\<rparr> in
      case faults s of
        Some e # _ \<Rightarrow> (Inl e, s')
      | _ \<Rightarrow>
        (case seekTarget s offset whence of
           Inl e \<Rightarrow> (Inl e, s')
         | Inr npos \<Rightarrow>
             if npos <s 0 then (Inl (Error ''Seek: negative position''), s')
             else (Inr npos, s'\<lparr>off := npos\<rparr>)))"

subsection \<open>Requests, responses, clients\<close>

text \<open>
  A request body is an \<^verbatim>\<open>io.ReadCloser\<close>; the type assertion \<^verbatim>\<open>req.Body.(io.Seeker)\<close>
  succeeds on \<open>SeekBody\<close> and fails on \<open>PlainBody\<close>.
\<close>

datatype body = SeekBody seeker | PlainBody string

text \<open>
  The fields of \<^verbatim>\<open>http.Request\<close> that \<^verbatim>\<open>client.go\<close> reads or writes. \<^verbatim>\<open>http.Header\<close> is a
  \<^verbatim>\<open>map[string][]string\<close>, taken to be allocated (as \<^verbatim>\<open>http.NewRequest\<close> leaves it).
\<close>

record Request =
  Method :: string
  URL :: string
  Header :: "string \<rightharpoonup> string list"
  Body :: "body option"
  ContentLength :: int64

text \<open>\<^verbatim>\<open>Header.Set(key, value)\<close> for a key already in canonical form, as \<^verbatim>\<open>"Date"\<close> is.\<close>

definition Header_Set :: "(string \<rightharpoonup> string list) \<Rightarrow> string \<Rightarrow> string \<Rightarrow> (string \<rightharpoonup> string list)" where
  "Header_Set h key v = h(key \<mapsto> [v])"

record Response =
  StatusCode :: int

text \<open>The underlying \<^verbatim>\<open>*http.Client\<close>, reduced to its method \<^verbatim>\<open>Do\<close>.\<close>

type_synonym HTTPClient = "Request \<Rightarrow> Response option \<times> error option"

text \<open>
  \<^verbatim>\<open>type Client struct\<close> (lines 13-27). Each field may be nil. \<open>Sign\<close> receives the request
  by pointer: it returns the request as it leaves it, together with its error.
\<close>

record 't Client =
  Sign :: "(Request \<Rightarrow> (Request \<times> error option) outcome) option"
  Time :: "(unit \<Rightarrow> 't) option"
  Client :: "HTTPClient option"

text \<open>
  What the caller of \<^verbatim>\<open>Do\<close> gets back: the two return values, and the requests that were
  handed to the underlying client (none or one).
\<close>

record Do_result =
  response :: "Response option"
  failure :: "error option"
  sent :: "Request list"

section \<open>The functions of client.go\<close>

subsection \<open>findLen (lines 103-120)\<close>

definition findLen :: "seeker \<Rightarrow> (int64 \<times> error option) \<times> seeker" where
  "findLen s =
     (case Seek s 0 1 of
        (Inl e, s1) \<Rightarrow> ((0, Some (Errorf ''cannot seek: '' e)), s1)
      | (Inr cur, s1) \<Rightarrow>
        (case Seek s1 0 2 of
           (Inl e, s2) \<Rightarrow> ((0, Some (Errorf ''cannot seek: '' e)), s2)
         | (Inr end, s2) \<Rightarrow>
           (case Seek s2 cur 0 of
              (Inl e, s3) \<Rightarrow> ((0, Some (Errorf ''cannot seek: '' e)), s3)
            | (Inr _, s3) \<Rightarrow>
                if end <s cur
                then ((0, Some (Error ''cannot find length, current position is past end'')), s3)
                else ((end - cur, None), s3))))"

subsection \<open>Client.Do (lines 50-74)\<close>

text \<open>
  Lines 51-59. The result is the request as the block leaves it and whether \<^verbatim>\<open>Do\<close> returns
  at line 56. The assignment of line 54 stores the first result of \<open>findLen\<close> in
  \<open>ContentLength\<close> in every case; line 55 tests \<^verbatim>\<open>err == nil\<close>.
\<close>

definition probeLength :: "Request \<Rightarrow> Request \<times> bool" where
  "probeLength req =
     (if ContentLength req = 0 \<and> Body req \<noteq> None then
        (case Body req of
           Some (SeekBody s) \<Rightarrow>
             (case findLen s of
                ((n, err), s') \<Rightarrow>
                  (req\<lparr>Body := Some (SeekBody s'), ContentLength := n\<rparr>, err = None))
         | _ \<Rightarrow> (req, False))
      else (req, False))"

text \<open>
  Lines 60-64. \<open>TimeFormat\<close> stands for \<^verbatim>\<open>t.Format(http.TimeFormat)\<close> of the standard
  library. Calling \<^verbatim>\<open>c.Time\<close> when it is nil panics.
\<close>

definition defaultDate :: "('t \<Rightarrow> string) \<Rightarrow> 't Client \<Rightarrow> Request \<Rightarrow> Request outcome" where
  "defaultDate TimeFormat c req =
     (if Header req ''Date'' = None then
        if Header req ''X-Amz-Date'' = None then
          (case Time c of
             None \<Rightarrow> Panic (NilFunc ''c.Time'')
           | Some now \<Rightarrow>
               Return (req\<lparr>Header := Header_Set (Header req) ''Date'' (TimeFormat (now ()))\<rparr>))
        else Return req
      else Return req)"

text \<open>
  \<^verbatim>\<open>Do\<close> itself. \<open>DefaultClient\<close> stands for \<^verbatim>\<open>http.DefaultClient\<close>. The second component of
  the result is the caller's request as \<^verbatim>\<open>Do\<close> leaves it.
\<close>

definition Do :: "('t \<Rightarrow> string) \<Rightarrow> HTTPClient \<Rightarrow> 't Client \<Rightarrow> Request \<Rightarrow> (Do_result \<times> Request) outcome" where
  "Do TimeFormat DefaultClient c req =
     (case probeLength req of
        (req1, True) \<Rightarrow> Return (\<lparr>response = None, failure = None, sent = []\<rparr>, req1)
      | (req1, False) \<Rightarrow>
        (case defaultDate TimeFormat c req1 of
           Panic p \<Rightarrow> Panic p
         | Return req2 \<Rightarrow>
           (case Sign c of
              None \<Rightarrow> Panic (NilFunc ''c.Sign'')
            | Some sign \<Rightarrow>
              (case sign req2 of
                 Panic p \<Rightarrow> Panic p
               | Return (req3, Some e) \<Rightarrow>
                   Return (\<lparr>response = None, failure = Some (Errorf ''sign request: '' e), sent = []\<rparr>, req3)
               | Return (req3, None) \<Rightarrow>
                   (let c1 = (case Client c of None \<Rightarrow> DefaultClient | Some h \<Rightarrow> h)
                    in case c1 req3 of
                         (r, e) \<Rightarrow> Return (\<lparr>response = r, failure = e, sent = [req3]\<rparr>, req3))))))"

subsection \<open>Client.Get and Client.Put (lines 29-43)\<close>

text \<open>
  \<open>NewRequest\<close> stands for \<^verbatim>\<open>http.NewRequest\<close> of the standard library. The request built
  here is local to \<^verbatim>\<open>Get\<close> and \<^verbatim>\<open>Put\<close>, so only the first component of the result of \<open>Do\<close>
  reaches the caller.
\<close>

definition Get ::
  "(string \<Rightarrow> string \<Rightarrow> body option \<Rightarrow> error + Request) \<Rightarrow> ('t \<Rightarrow> string) \<Rightarrow> HTTPClient \<Rightarrow>
   't Client \<Rightarrow> string \<Rightarrow> Do_result outcome" where
  "Get NewRequest TimeFormat DefaultClient c url =
     (case NewRequest ''GET'' url None of
        Inl e \<Rightarrow> Return \<lparr>response = None, failure = Some e, sent = []\<rparr>
      | Inr req \<Rightarrow> map_outcome fst (Do TimeFormat DefaultClient c req))"

definition Put ::
  "(string \<Rightarrow> string \<Rightarrow> body option \<Rightarrow> error + Request) \<Rightarrow> ('t \<Rightarrow> string) \<Rightarrow> HTTPClient \<Rightarrow>
   't Client \<Rightarrow> string \<Rightarrow> body option \<Rightarrow> Do_result outcome" where
  "Put NewRequest TimeFormat DefaultClient c url body =
     (case NewRequest ''GET'' url body of
        Inl e \<Rightarrow> Return \<lparr>response = None, failure = Some e, sent = []\<rparr>
      | Inr req \<Rightarrow> map_outcome fst (Do TimeFormat DefaultClient c req))"

subsection \<open>Signer.Sign (lines 82-101)\<close>

text \<open>
  The types \<^verbatim>\<open>Keys\<close> and \<^verbatim>\<open>Service\<close>, the variables \<^verbatim>\<open>DefaultKeys\<close> and \<^verbatim>\<open>DefaultService\<close>
  and the method \<^verbatim>\<open>Service.Sign\<close> are declared in other files of the package. \<^verbatim>\<open>Keys\<close> has
  the fields that \<^verbatim>\<open>client.go\<close> and its example name; a service is a value of an arbitrary
  type \<open>'sv\<close>; the two variables and the method are parameters. \<^verbatim>\<open>Service.Sign\<close> has a
  pointer receiver and no result: it is given the (possibly nil) receiver, the request and
  the keys, and leaves the request changed or panics.
\<close>

record Keys =
  AccessKey :: string
  SecretKey :: string
  SecurityToken :: string

record 'sv Signer =
  Keys :: "Keys option"
  Service :: "'sv option"

definition Signer_Sign ::
  "('sv option \<Rightarrow> Request \<Rightarrow> Keys \<Rightarrow> Request outcome) \<Rightarrow> Keys option \<Rightarrow> 'sv option \<Rightarrow>
   'sv Signer \<Rightarrow> Request \<Rightarrow> (Request \<times> error option) outcome" where
  "Signer_Sign Service_Sign DefaultKeys DefaultService s req =
     (let keys = (case Keys s of None \<Rightarrow> DefaultKeys | Some k \<Rightarrow> Some k);
          sv = (case Service s of None \<Rightarrow> DefaultService | Some v \<Rightarrow> Some v)
      in case keys of
           None \<Rightarrow> Panic (NilPointer ''*keys'')
         | Some k \<Rightarrow>
             (case Service_Sign sv req k of
                Panic p \<Rightarrow> Panic p
              | Return req' \<Rightarrow> Return (req', None)))"

section \<open>Concrete inputs\<close>

text \<open>
  The values below instantiate the parameters of the model in the closed examples that
  follow; no general statement depends on them. \<open>helloReader\<close> is the body of the package's
  example (\<^verbatim>\<open>"hello, world"\<close>, 12 bytes, at offset 0); \<open>pastEndReader\<close> has been moved past
  its end; \<open>closedReader\<close> fails on its first seek.
\<close>

definition helloReader :: seeker where
  "helloReader = \<lparr>bytes = ''hello, world'', off = 0, faults = []\<rparr>"

definition midReader :: seeker where
  "midReader = \<lparr>bytes = ''hello, world'', off = 5, faults = []\<rparr>"

definition pastEndReader :: seeker where
  "pastEndReader = \<lparr>bytes = ''hello'', off = 7, faults = []\<rparr>"

definition closedReader :: seeker where
  "closedReader = \<lparr>bytes = ''hello'', off = 0, faults = [Some (Error ''file already closed'')]\<rparr>"

text \<open>
  An instant in UTC by its calendar fields, and its rendering in the layout of
  \<^verbatim>\<open>http.TimeFormat\<close>, \<^verbatim>\<open>"Mon, 02 Jan 2006 15:04:05 GMT"\<close>.
\<close>

record instant =
  weekday :: nat
  day :: nat
  month :: nat
  year :: nat
  hour :: nat
  minute :: nat
  second :: nat

definition digit :: "nat \<Rightarrow> char" where
  "digit n = ''0123456789'' ! (n mod 10)"

definition digits2 :: "nat \<Rightarrow> string" where
  "digits2 n = [digit (n div 10), digit n]"

definition digits4 :: "nat \<Rightarrow> string" where
  "digits4 n = [digit (n div 1000), digit (n div 100), digit (n div 10), digit n]"

definition httpTimeFormat :: "instant \<Rightarrow> string" where
  "httpTimeFormat t =
     [''Sun'', ''Mon'', ''Tue'', ''Wed'', ''Thu'', ''Fri'', ''Sat''] ! (weekday t mod 7) @ '', '' @
     digits2 (day t) @ '' '' @
     [''Jan'', ''Feb'', ''Mar'', ''Apr'', ''May'', ''Jun'',
      ''Jul'', ''Aug'', ''Sep'', ''Oct'', ''Nov'', ''Dec''] ! ((month t + 11) mod 12) @ '' '' @
     digits4 (year t) @ '' '' @
     digits2 (hour t) @ '':'' @ digits2 (minute t) @ '':'' @ digits2 (second t) @ '' GMT''"

definition fixedClock :: "unit \<Rightarrow> instant" where
  "fixedClock u = \<lparr>weekday = 1, day = 2, month = 1, year = 2006, hour = 15, minute = 4, second = 5\<rparr>"

text \<open>
  Two signers for the field \<open>Sign\<close>: one writes an \<^verbatim>\<open>Authorization\<close> header and returns nil,
  the other returns an error. A transport that answers every request with status 200, and
  one that answers 503; they serve as \<^verbatim>\<open>http.DefaultClient\<close> and as the field \<open>Client\<close>.
\<close>

definition stampSigner :: "Request \<Rightarrow> (Request \<times> error option) outcome" where
  "stampSigner r = Return (r\<lparr>Header := Header_Set (Header r) ''Authorization'' ''AWS AK:c2ln''\<rparr>, None)"

definition failingSigner :: "Request \<Rightarrow> (Request \<times> error option) outcome" where
  "failingSigner r = Return (r, Some (Error ''no signature''))"

definition okTransport :: HTTPClient where
  "okTransport r = (Some \<lparr>StatusCode = 200\<rparr>, None)"

definition busyTransport :: HTTPClient where
  "busyTransport r = (Some \<lparr>StatusCode = 503\<rparr>, None)"

definition fullClient :: "instant Client" where
  "fullClient = \<lparr>Sign = Some stampSigner, Time = Some fixedClock, Client = None\<rparr>"

definition zeroClient :: "instant Client" where
  "zeroClient = \<lparr>Sign = None, Time = None, Client = None\<rparr>"

text \<open>
  The request of \<^verbatim>\<open>ExampleClient_Do\<close> in \<^verbatim>\<open>example_test.go\<close>, with a given body and with
  content length 0 (the length is not known yet).
\<close>

definition putRequest :: "body option \<Rightarrow> Request" where
  "putRequest b =
     \<lparr>Method = ''PUT'', URL = ''https://example.s3.amazonaws.com/foo'',
      Header = [''X-Amz-Acl'' \<mapsto> [''public-read'']], Body = b, ContentLength = 0\<rparr>"

text \<open>
  A stand-in for \<^verbatim>\<open>http.NewRequest\<close>: it rejects an empty URL and otherwise builds a request
  with the given method, URL and body, an empty header map and content length 0.
\<close>

definition plainNewRequest :: "string \<Rightarrow> string \<Rightarrow> body option \<Rightarrow> error + Request" where
  "plainNewRequest method url b =
     (if url = [] then Inl (Error ''empty url'')
      else Inr \<lparr>Method = method, URL = url, Header = Map.empty, Body = b, ContentLength = 0\<rparr>)"

text \<open>
  A stand-in for \<^verbatim>\<open>Service.Sign\<close>, with a service given by its domain name: it panics on a
  nil receiver and otherwise writes an \<^verbatim>\<open>Authorization\<close> header naming the access key and
  the domain.
\<close>

definition domainSign :: "string option \<Rightarrow> Request \<Rightarrow> Keys \<Rightarrow> Request outcome" where
  "domainSign sv r k =
     (case sv of
        None \<Rightarrow> Panic (NilPointer ''s'')
      | Some d \<Rightarrow>
          Return (r\<lparr>Header := Header_Set (Header r) ''Authorization'' (''AWS '' @ AccessKey k @ '':'' @ d)\<rparr>))"

definition emptyKeys :: Keys where
  "emptyKeys = \<lparr>AccessKey = [], SecretKey = [], SecurityToken = []\<rparr>"

definition envKeys :: Keys where
  "envKeys = \<lparr>AccessKey = ''AK'', SecretKey = ''SK'', SecurityToken = []\<rparr>"

definition ownKeys :: Keys where
  "ownKeys = \<lparr>AccessKey = ''OWN'', SecretKey = ''SECRET'', SecurityToken = []\<rparr>"

text \<open>
  A client whose signer fails, a request that already carries \<^verbatim>\<open>X-Amz-Date\<close>, and the
  request of \<open>putRequest\<close> as \<open>fullClient\<close> hands it to the transport: dated by
  \<open>fixedClock\<close> and signed by \<open>stampSigner\<close>.
\<close>

definition failingClient :: "instant Client" where
  "failingClient = \<lparr>Sign = Some failingSigner, Time = Some fixedClock, Client = None\<rparr>"

definition datedRequest :: Request where
  "datedRequest =
     \<lparr>Method = ''GET'', URL = ''https://example.s3.amazonaws.com/foo'',
      Header = [''X-Amz-Date'' \<mapsto> [''Tue, 03 Jan 2006 10:00:00 GMT'']], Body = None,
      ContentLength = 0\<rparr>"

definition signedRequest :: "body option \<Rightarrow> Request" where
  "signedRequest b =
     \<lparr>Method = ''PUT'', URL = ''https://example.s3.amazonaws.com/foo'',
      Header = [''X-Amz-Acl'' \<mapsto> [''public-read''],
                ''Date'' \<mapsto> [''Mon, 02 Jan 2006 15:04:05 GMT''],
                ''Authorization'' \<mapsto> [''AWS AK:c2ln'']],
      Body = b, ContentLength = 0\<rparr>"

text \<open>
  A signer that leaves everything to the defaults and one with keys and service of its own;
  the request of \<open>putRequest None\<close> after \<open>domainSign\<close> has written the header value \<open>v\<close>;
  and the request that \<^verbatim>\<open>Put\<close> sends through \<open>plainNewRequest\<close> and \<open>fullClient\<close>.
\<close>

definition noSigner :: "string Signer" where
  "noSigner = \<lparr>Keys = None, Service = None\<rparr>"

definition ownSigner :: "string Signer" where
  "ownSigner = \<lparr>Keys = Some ownKeys, Service = Some ''example.org''\<rparr>"

definition authorized :: "string \<Rightarrow> Request" where
  "authorized v =
     \<lparr>Method = ''PUT'', URL = ''https://example.s3.amazonaws.com/foo'',
      Header = [''X-Amz-Acl'' \<mapsto> [''public-read''], ''Authorization'' \<mapsto> [v]],
      Body = None, ContentLength = 0\<rparr>"

definition fetched :: Request where
  "fetched =
     \<lparr>Method = ''GET'', URL = ''https://example.s3.amazonaws.com/foo'',
      Header = [''Date'' \<mapsto> [''Mon, 02 Jan 2006 15:04:05 GMT''],
                ''Authorization'' \<mapsto> [''AWS AK:c2ln'']],
      Body = Some (PlainBody ''hello, world''), ContentLength = 0\<rparr>"

section \<open>The resolution of defaults as the specification words it\<close>

text \<open>
  "Its own Keys field if non-nil, else the process-wide DefaultKeys; its own Service field
  if non-nil, else DefaultService." These two definitions follow that sentence; they are
  compared with \<open>Signer_Sign\<close> below.
\<close>

definition effectiveKeys :: "'sv Signer \<Rightarrow> Keys option \<Rightarrow> Keys option" where
  "effectiveKeys s DefaultKeys = (if Keys s \<noteq> None then Keys s else DefaultKeys)"

definition effectiveService :: "'sv Signer \<Rightarrow> 'sv option \<Rightarrow> 'sv option" where
  "effectiveService s DefaultService = (if Service s \<noteq> None then Service s else DefaultService)"

section \<open>Properties of findLen\<close>

lemma Seek_Inr:
  assumes "Seek s offset whence = (Inr p, s')"
  shows "seekTarget s offset whence = Inr p"
    and "\<not> p <s 0"
    and "s' = s\<lparr>faults := tl (faults s), off := p\<rparr>"
  using assms
  by (auto simp: Seek_def Let_def split: list.splits option.splits sum.splits if_splits)

lemma sint_diff_nonneg:
  fixes a b :: int64
  assumes "\<not> a <s 0" and "\<not> b <s 0" and "\<not> b <s a"
  shows "sint (b - a) = sint b - sint a"
proof -
  have a: "0 \<le> sint a" and b: "0 \<le> sint b" and ab: "sint a \<le> sint b"
    using assms by (simp_all add: word_sless_alt)
  have "sint b < 2 ^ 63"
    using sint_lt [of b] by simp
  with a b ab have "- (2 ^ 63) \<le> sint b - sint a" and "sint b - sint a < 2 ^ 63"
    by simp_all
  then have "signed_take_bit 63 (sint b - sint a) = sint b - sint a"
    by (rule signed_take_bit_int_eq_self)
  then show ?thesis
    by (simp add: sint_word_diff)
qed

lemma Seek_midReader:
  "Seek midReader 0 1 = (Inr 5, midReader)"
  "Seek midReader 0 2 = (Inr 12, midReader\<lparr>off := 12\<rparr>)"
  "Seek (midReader\<lparr>off := 12\<rparr>) 5 0 = (Inr 5, midReader)"
  by (simp_all add: midReader_def Seek_def seekTarget_def word_sless_alt)

lemma Seek_pastEndReader:
  "Seek pastEndReader 0 1 = (Inr 7, pastEndReader)"
  "Seek pastEndReader 0 2 = (Inr 5, pastEndReader\<lparr>off := 5\<rparr>)"
  "Seek (pastEndReader\<lparr>off := 5\<rparr>) 7 0 = (Inr 7, pastEndReader)"
  by (simp_all add: pastEndReader_def Seek_def seekTarget_def word_sless_alt)

lemma findLen_helloReader: "findLen helloReader = ((12, None), helloReader)"
  by (simp add: findLen_def helloReader_def Seek_def seekTarget_def word_sless_alt)

lemma findLen_midReader: "findLen midReader = ((7, None), midReader)"
  by (simp add: findLen_def Seek_midReader word_sless_alt)

lemma findLen_pastEndReader:
  "findLen pastEndReader =
     ((0, Some (Error ''cannot find length, current position is past end'')), pastEndReader)"
  by (simp add: findLen_def Seek_pastEndReader word_sless_alt)

lemma findLen_closedReader:
  "findLen closedReader =
     ((0, Some (Error ''cannot seek: file already closed'')), closedReader\<lparr>faults := []\<rparr>)"
  by (simp add: findLen_def closedReader_def Seek_def Errorf_def)

text \<open>
  C7. On a stream on which the three seeks succeed, \<open>findLen\<close> reads the current offset
  (\<open>cur\<close>), seeks to the end and reads the end offset (\<open>end\<close>, the number of bytes), seeks
  back to \<open>cur\<close>, and returns \<open>end - cur\<close> with no error; when \<open>cur\<close> is past \<open>end\<close> it
  returns the error "cannot find length, current position is past end" and length 0. The
  difference does not wrap around.
\<close>

theorem findLen_end_minus_cur:
  assumes "Seek s 0 1 = (Inr cur, s1)"
    and "Seek s1 0 2 = (Inr end, s2)"
    and "Seek s2 cur 0 = (Inr p, s3)"
  shows "cur = off s \<and> end = of_nat (length (bytes s)) \<and> off s2 = end \<and> p = cur \<and>
         findLen s =
           (if end <s cur
            then (0, Some (Error ''cannot find length, current position is past end''))
            else (end - cur, None), s3) \<and>
         (\<not> end <s cur \<longrightarrow> sint (end - cur) = sint end - sint cur)"
proof -
  note s1 = Seek_Inr [OF assms(1)] and s2 = Seek_Inr [OF assms(2)] and s3 = Seek_Inr [OF assms(3)]
  have cur: "cur = off s"
    using s1(1) by (simp add: seekTarget_def)
  have en: "end = of_nat (length (bytes s))"
    using s2(1) s1(3) by (simp add: seekTarget_def)
  have p: "p = cur"
    using s3(1) by (simp add: seekTarget_def)
  have o2: "off s2 = end"
    using s2(3) by simp
  have fl: "findLen s =
           (if end <s cur
            then (0, Some (Error ''cannot find length, current position is past end''))
            else (end - cur, None), s3)"
    using assms by (simp add: findLen_def)
  have "\<not> end <s cur \<longrightarrow> sint (end - cur) = sint end - sint cur"
    using sint_diff_nonneg [of cur "end"] s1(2) s2(2) by simp
  with cur en p o2 fl show ?thesis by simp
qed

theorem findLen_end_minus_cur_witness:
  "findLen midReader = ((7, None), midReader) \<and>
   findLen pastEndReader =
     ((0, Some (Error ''cannot find length, current position is past end'')), pastEndReader)"
proof -
  have "findLen midReader =
          (if (12 :: int64) <s 5
           then (0, Some (Error ''cannot find length, current position is past end''))
           else (12 - 5, None), midReader)"
    using findLen_end_minus_cur [OF Seek_midReader] by blast
  moreover have "findLen pastEndReader =
          (if (5 :: int64) <s 7
           then (0, Some (Error ''cannot find length, current position is past end''))
           else (5 - 7, None), pastEndReader)"
    using findLen_end_minus_cur [OF Seek_pastEndReader] by blast
  ultimately show ?thesis
    by (simp add: word_sless_alt)
qed

lemma past_end_is_not_seek_error:
  "Errorf ''cannot seek: '' e \<noteq> Error ''cannot find length, current position is past end''"
  by (cases e) (simp add: Errorf_def)

text \<open>
  C10. When the first two seeks succeed, the stream is at its end after the second one,
  and whenever \<open>findLen\<close> then returns a length or the error "current position is past end",
  the third seek has put the stream back at its original offset: the seek back to \<open>cur\<close>
  comes before the comparison of \<open>cur\<close> with \<open>end\<close>. The bytes are untouched.
\<close>

theorem findLen_restores_position:
  assumes "Seek s 0 1 = (Inr cur, s1)"
    and "Seek s1 0 2 = (Inr end, s2)"
    and "snd (fst (findLen s)) = None \<or>
         snd (fst (findLen s)) = Some (Error ''cannot find length, current position is past end'')"
  shows "off s2 = end \<and> Seek s2 cur 0 = (Inr (off s), snd (findLen s)) \<and>
         off (snd (findLen s)) = off s \<and> bytes (snd (findLen s)) = bytes s"
proof -
  note s1 = Seek_Inr [OF assms(1)] and s2 = Seek_Inr [OF assms(2)]
  have cur: "cur = off s"
    using s1(1) by (simp add: seekTarget_def)
  obtain x s3 where third: "Seek s2 cur 0 = (x, s3)"
    by (cases "Seek s2 cur 0")
  show ?thesis
  proof (cases x)
    case (Inl e)
    with assms(1,2) third have "snd (fst (findLen s)) = Some (Errorf ''cannot seek: '' e)"
      by (simp add: findLen_def)
    with assms(3)
    have "Errorf ''cannot seek: '' e = Error ''cannot find length, current position is past end''"
      by (elim disjE) simp_all
    with past_end_is_not_seek_error [of e] have False ..
    then show ?thesis ..
  next
    case (Inr p)
    note s3 = Seek_Inr [OF third [unfolded Inr]]
    have "p = cur"
      using s3(1) by (simp add: seekTarget_def)
    moreover have "snd (findLen s) = s3"
      using assms(1,2) third Inr by (simp add: findLen_def)
    ultimately show ?thesis
      using third Inr cur s1(3) s2(3) s3(3) by simp
  qed
qed

theorem findLen_restores_position_witness:
  "off (snd (findLen midReader)) = off midReader \<and>
   off (snd (findLen pastEndReader)) = off pastEndReader"
proof -
  have a: "snd (fst (findLen midReader)) = None \<or>
         snd (fst (findLen midReader)) =
           Some (Error ''cannot find length, current position is past end'')"
    by (simp add: findLen_midReader)
  have b: "snd (fst (findLen pastEndReader)) = None \<or>
         snd (fst (findLen pastEndReader)) =
           Some (Error ''cannot find length, current position is past end'')"
    by (simp add: findLen_pastEndReader)
  have "off (snd (findLen midReader)) = off midReader"
    using findLen_restores_position [OF Seek_midReader(1,2) a] by blast
  moreover have "off (snd (findLen pastEndReader)) = off pastEndReader"
    using findLen_restores_position [OF Seek_pastEndReader(1,2) b] by blast
  ultimately show ?thesis ..
qed

section \<open>Properties of Client.Do\<close>

subsection \<open>The two blocks before signing\<close>

lemma httpTimeFormat_fixedClock: "httpTimeFormat (fixedClock u) = ''Mon, 02 Jan 2006 15:04:05 GMT''"
  by (simp add: httpTimeFormat_def fixedClock_def digits2_def digits4_def digit_def)

lemma probeLength_Header [simp]: "Header (fst (probeLength req)) = Header req"
  by (simp add: probeLength_def split: option.splits body.splits prod.splits)

lemma probeLength_Method [simp]: "Method (fst (probeLength req)) = Method req"
  by (simp add: probeLength_def split: option.splits body.splits prod.splits)

text \<open>
  The length is probed only for a declared length of 0 and a body that can seek. On a probed
  body the request takes over the stream as \<open>findLen\<close> leaves it and the length it
  returns, and \<^verbatim>\<open>Do\<close> returns at line 56 exactly when \<open>findLen\<close> reports no error.
\<close>

lemma probeLength_skipped:
  assumes "ContentLength req \<noteq> 0 \<or> Body req = None \<or> Body req = Some (PlainBody b)"
  shows "probeLength req = (req, False)"
  using assms by (auto simp: probeLength_def)

lemma probeLength_seekable:
  assumes "ContentLength req = 0" and "Body req = Some (SeekBody s)"
    and "findLen s = ((n, e), s')"
  shows "probeLength req = (req\<lparr>Body := Some (SeekBody s'), ContentLength := n\<rparr>, e = None)"
  using assms by (simp add: probeLength_def)

lemma Do_returns_when_length_found:
  assumes "ContentLength req = 0" and "Body req = Some (SeekBody s)"
    and "findLen s = ((n, None), s')"
  shows "Do tf dc c req =
           Return (\<lparr>response = None, failure = None, sent = []\<rparr>,
                   req\<lparr>Body := Some (SeekBody s'), ContentLength := n\<rparr>)"
  using probeLength_seekable [OF assms] by (simp add: Do_def)

text \<open>
  The block of lines 60-64 writes \<^verbatim>\<open>Date\<close> from the clock when the request has neither
  \<^verbatim>\<open>Date\<close> nor \<^verbatim>\<open>X-Amz-Date\<close>, and leaves the request alone otherwise.
\<close>

lemma defaultDate_sets_Date:
  assumes "Header req ''Date'' = None" and "Header req ''X-Amz-Date'' = None"
    and "Time c = Some now"
  shows "defaultDate tf c req = Return (req\<lparr>Header := (Header req)(''Date'' \<mapsto> [tf (now ())])\<rparr>)"
  using assms by (simp add: defaultDate_def Header_Set_def)

lemma defaultDate_keeps_dated:
  assumes "Header req ''Date'' \<noteq> None \<or> Header req ''X-Amz-Date'' \<noteq> None"
  shows "defaultDate tf c req = Return req"
  using assms by (auto simp: defaultDate_def)

lemma defaultDate_Method:
  assumes "defaultDate tf c r = Return r'"
  shows "Method r' = Method r"
  using assms by (auto simp: defaultDate_def split: if_splits option.splits)

lemma defaultDate_Client_update: "defaultDate tf (c\<lparr>Client := x\<rparr>) r = defaultDate tf c r"
  by (simp add: defaultDate_def)

lemma Do_fullClient_unprobed:
  assumes "probeLength (putRequest b) = (putRequest b', False)"
  shows "Do httpTimeFormat okTransport fullClient (putRequest b) =
     Return (\<lparr>response = Some \<lparr>StatusCode = 200\<rparr>, failure = None, sent = [signedRequest b']\<rparr>,
             signedRequest b')"
  using assms
  by (simp add: Do_def defaultDate_def fullClient_def stampSigner_def okTransport_def
      httpTimeFormat_fixedClock Header_Set_def putRequest_def signedRequest_def)

subsection \<open>Length probing\<close>

text \<open>
  C1. The claim: for a request with declared length 0 and a seekable body at offset 0 holding
  N bytes, \<^verbatim>\<open>Do\<close> sets \<open>ContentLength\<close> to N, restores the offset and goes on to date, sign
  and send the request. The code does the first two and then returns: on the 12-byte body
  of the package's example, with a clock, a signer and a transport that all succeed, \<^verbatim>\<open>Do\<close>
  returns a nil response and a nil error, the request has length 12 and its body is back at
  offset 0, but it carries no \<^verbatim>\<open>Date\<close> and no signature and nothing was sent. Line 55
  tests \<^verbatim>\<open>err == nil\<close> where the failure of \<open>findLen\<close> was meant.
\<close>

theorem Do_found_length_returns_early:
  "Do httpTimeFormat okTransport fullClient (putRequest (Some (SeekBody helloReader))) =
     Return (\<lparr>response = None, failure = None, sent = []\<rparr>,
             (putRequest (Some (SeekBody helloReader)))\<lparr>ContentLength := 12\<rparr>)"
  by (simp add: Do_def probeLength_def putRequest_def findLen_helloReader)

text \<open>
  C3. The claim: when a seek fails or the current offset is past the end, \<^verbatim>\<open>Do\<close> returns
  the seek error and never sends the request. The code drops the error of \<open>findLen\<close>: for
  a body moved past its end, and for a body whose first seek fails, \<^verbatim>\<open>Do\<close> with the same
  client dates and signs the request, sends it with content length 0, and returns the
  response of the transport with a nil error.
\<close>

theorem Do_sends_after_seek_error:
  "Do httpTimeFormat okTransport fullClient (putRequest (Some (SeekBody pastEndReader))) =
     Return (\<lparr>response = Some \<lparr>StatusCode = 200\<rparr>, failure = None,
              sent = [signedRequest (Some (SeekBody pastEndReader))]\<rparr>,
             signedRequest (Some (SeekBody pastEndReader))) \<and>
   Do httpTimeFormat okTransport fullClient (putRequest (Some (SeekBody closedReader))) =
     Return (\<lparr>response = Some \<lparr>StatusCode = 200\<rparr>, failure = None,
              sent = [signedRequest (Some (SeekBody (closedReader\<lparr>faults := []\<rparr>)))]\<rparr>,
             signedRequest (Some (SeekBody (closedReader\<lparr>faults := []\<rparr>))))"
proof -
  have "probeLength (putRequest (Some (SeekBody pastEndReader))) =
          (putRequest (Some (SeekBody pastEndReader)), False)"
    by (simp add: probeLength_def putRequest_def findLen_pastEndReader)
  moreover have "probeLength (putRequest (Some (SeekBody closedReader))) =
          (putRequest (Some (SeekBody (closedReader\<lparr>faults := []\<rparr>))), False)"
    by (simp add: probeLength_def putRequest_def findLen_closedReader)
  ultimately show ?thesis
    by (simp add: Do_fullClient_unprobed)
qed

subsection \<open>The Date header\<close>

text \<open>
  C4. The claim: for every request with neither \<^verbatim>\<open>Date\<close> nor \<^verbatim>\<open>X-Amz-Date\<close>, \<^verbatim>\<open>Do\<close> with a
  clock sets \<^verbatim>\<open>Date\<close> to the formatted instant. It holds whenever \<^verbatim>\<open>Do\<close> reaches line 60
  (\<open>defaultDate_sets_Date\<close>), but not for every request: a request with neither header, a
  declared length of 0 and a seekable body whose length is found comes back from \<^verbatim>\<open>Do\<close>
  without a \<^verbatim>\<open>Date\<close> header, since \<^verbatim>\<open>Do\<close> has returned at line 56.
\<close>

theorem Do_found_length_sets_no_Date:
  "Header (putRequest (Some (SeekBody midReader))) ''Date'' = None \<and>
   Header (putRequest (Some (SeekBody midReader))) ''X-Amz-Date'' = None \<and>
   Time fullClient = Some fixedClock \<and>
   Do httpTimeFormat okTransport fullClient (putRequest (Some (SeekBody midReader))) =
     Return (\<lparr>response = None, failure = None, sent = []\<rparr>,
             (putRequest (Some (SeekBody midReader)))\<lparr>ContentLength := 7\<rparr>) \<and>
   Header ((putRequest (Some (SeekBody midReader)))\<lparr>ContentLength := 7\<rparr>) ''Date'' = None"
  by (simp add: Do_def probeLength_def putRequest_def findLen_midReader fullClient_def)

subsection \<open>Signing\<close>

text \<open>
  C8. When \<^verbatim>\<open>Do\<close> reaches line 65 with the prepared request \<open>req2\<close> and \<open>Sign\<close> returns an
  error with message \<open>m\<close> on it, \<^verbatim>\<open>Do\<close> returns a nil response and the error
  "sign request: " followed by \<open>m\<close>, and nothing is handed to the transport.
\<close>

theorem Do_wraps_sign_error:
  assumes "probeLength req = (req1, False)"
    and "defaultDate tf c req1 = Return req2"
    and "Sign c = Some sign"
    and "sign req2 = Return (req3, Some (Error m))"
  shows "Do tf dc c req =
           Return (\<lparr>response = None, failure = Some (Error (''sign request: '' @ m)), sent = []\<rparr>,
                   req3)"
  using assms by (simp add: Do_def Errorf_def)

theorem Do_wraps_sign_error_witness:
  "Do httpTimeFormat okTransport failingClient (putRequest (Some (PlainBody ''abc''))) =
     Return (\<lparr>response = None, failure = Some (Error ''sign request: no signature''), sent = []\<rparr>,
             (putRequest (Some (PlainBody ''abc'')))
               \<lparr>Header := [''X-Amz-Acl'' \<mapsto> [''public-read''],
                           ''Date'' \<mapsto> [''Mon, 02 Jan 2006 15:04:05 GMT'']]\<rparr>)"
proof -
  let ?req = "putRequest (Some (PlainBody ''abc''))"
  let ?req2 = "?req\<lparr>Header := [''X-Amz-Acl'' \<mapsto> [''public-read''],
                           ''Date'' \<mapsto> [''Mon, 02 Jan 2006 15:04:05 GMT'']]\<rparr>"
  have a: "probeLength ?req = (?req, False)"
    by (simp add: probeLength_def putRequest_def)
  have b: "defaultDate httpTimeFormat failingClient ?req = Return ?req2"
    by (simp add: defaultDate_def failingClient_def putRequest_def Header_Set_def
        httpTimeFormat_fixedClock)
  have c: "Sign failingClient = Some failingSigner"
    by (simp add: failingClient_def)
  have d: "failingSigner ?req2 = Return (?req2, Some (Error ''no signature''))"
    by (simp add: failingSigner_def)
  have "Do httpTimeFormat okTransport failingClient ?req =
     Return (\<lparr>response = None, failure = Some (Error (''sign request: '' @ ''no signature'')),
              sent = []\<rparr>, ?req2)"
    by (rule Do_wraps_sign_error [OF a b c d])
  then show ?thesis
    by simp
qed

subsection \<open>Nil fields of the client\<close>

text \<open>
  C6. \<^verbatim>\<open>Do\<close> calls \<^verbatim>\<open>c.Time\<close> and \<^verbatim>\<open>c.Sign\<close> as they are. On a request that is not returned
  at line 56: with \<open>Time\<close> nil and neither date header present, the call \<^verbatim>\<open>c.Time()\<close>
  panics; with \<open>Sign\<close> nil, once the date block is passed, the call \<^verbatim>\<open>c.Sign(req)\<close>
  panics. Only \<open>Client\<close> has a default: a nil \<open>Client\<close> behaves as \<^verbatim>\<open>http.DefaultClient\<close>.
  So the zero value of \<open>Client\<close> panics at one of the two calls.
\<close>

theorem Do_nil_fields:
  assumes "snd (probeLength req) = False"
  shows "(Time c = None \<and> Header req ''Date'' = None \<and> Header req ''X-Amz-Date'' = None \<longrightarrow>
            Do tf dc c req = Panic (NilFunc ''c.Time'')) \<and>
         (Sign c = None \<and>
          (Time c \<noteq> None \<or> Header req ''Date'' \<noteq> None \<or> Header req ''X-Amz-Date'' \<noteq> None) \<longrightarrow>
            Do tf dc c req = Panic (NilFunc ''c.Sign'')) \<and>
         (Client c = None \<longrightarrow> Do tf dc c req = Do tf dc' (c\<lparr>Client := Some dc\<rparr>) req)"
proof -
  obtain req1 where p: "probeLength req = (req1, False)"
    using assms by (cases "probeLength req") simp
  have h: "Header req1 = Header req"
    using probeLength_Header [of req] p by simp
  have 1: "Do tf dc c req = Panic (NilFunc ''c.Time'')"
    if "Time c = None" "Header req ''Date'' = None" "Header req ''X-Amz-Date'' = None"
    using that p h by (simp add: Do_def defaultDate_def)
  have 2: "Do tf dc c req = Panic (NilFunc ''c.Sign'')"
    if "Sign c = None"
      "Time c \<noteq> None \<or> Header req ''Date'' \<noteq> None \<or> Header req ''X-Amz-Date'' \<noteq> None"
    using that p h by (auto simp: Do_def defaultDate_def)
  have 3: "Do tf dc c req = Do tf dc' (c\<lparr>Client := Some dc\<rparr>) req" if "Client c = None"
    using that
    by (simp add: Do_def defaultDate_Client_update
        split: prod.split bool.split outcome.split option.split)
  from 1 2 3 show ?thesis by blast
qed

theorem Do_nil_fields_witness:
  "Do httpTimeFormat okTransport zeroClient (putRequest (Some (PlainBody ''abc''))) =
     Panic (NilFunc ''c.Time'') \<and>
   Do httpTimeFormat okTransport zeroClient datedRequest = Panic (NilFunc ''c.Sign'') \<and>
   Do httpTimeFormat okTransport fullClient datedRequest =
     Do httpTimeFormat busyTransport (fullClient\<lparr>Client := Some okTransport\<rparr>) datedRequest"
proof -
  have a: "snd (probeLength (putRequest (Some (PlainBody ''abc'')))) = False"
    by (simp add: probeLength_def putRequest_def)
  have b: "snd (probeLength datedRequest) = False"
    by (simp add: probeLength_def datedRequest_def)
  have "Do httpTimeFormat okTransport zeroClient (putRequest (Some (PlainBody ''abc''))) =
     Panic (NilFunc ''c.Time'')"
    using Do_nil_fields [OF a, of zeroClient httpTimeFormat okTransport]
    by (simp add: zeroClient_def putRequest_def)
  moreover have "Do httpTimeFormat okTransport zeroClient datedRequest = Panic (NilFunc ''c.Sign'')"
    using Do_nil_fields [OF b, of zeroClient httpTimeFormat okTransport]
    by (simp add: zeroClient_def datedRequest_def)
  moreover have "Do httpTimeFormat okTransport fullClient datedRequest =
     Do httpTimeFormat busyTransport (fullClient\<lparr>Client := Some okTransport\<rparr>) datedRequest"
    using Do_nil_fields [OF b, of fullClient httpTimeFormat okTransport busyTransport]
    by (simp add: fullClient_def)
  ultimately show ?thesis by simp
qed

section \<open>Properties of Client.Put\<close>

lemma Do_sent_Method:
  assumes "Sign c = Some sg"
    and "\<forall>r r' e. sg r = Return (r', e) \<longrightarrow> Method r' = Method r"
    and "Do tf dc c req = Return (res, rq)"
  shows "\<forall>q \<in> set (sent res). Method q = Method req"
proof (cases "probeLength req")
  case (Pair req1 early)
  have m1: "Method req1 = Method req"
    using probeLength_Method [of req] Pair by simp
  show ?thesis
  proof (cases early)
    case True
    with Pair assms(3) show ?thesis
      by (auto simp: Do_def)
  next
    case False
    show ?thesis
    proof (cases "defaultDate tf c req1")
      case (Panic p)
      with Pair False assms(3) show ?thesis
        by (simp add: Do_def)
    next
      case (Return req2)
      note m2 = defaultDate_Method [OF Return]
      show ?thesis
      proof (cases "sg req2")
        case Panic2: (Panic p)
        with Pair False Return assms(1,3) show ?thesis
          by (simp add: Do_def)
      next
        case Return2: (Return x)
        obtain req3 e where x: "x = (req3, e)"
          by (cases x)
        have "Method req3 = Method req2"
          using assms(2) Return2 [unfolded x] by blast
        with m1 m2 have m3: "Method req3 = Method req"
          by simp
        show ?thesis
          using Pair False Return Return2 x assms(1,3) m3
          by (cases e) (auto simp: Do_def Let_def split: prod.splits)
      qed
    qed
  qed
qed

text \<open>
  C5. \<^verbatim>\<open>Put\<close> asks \<^verbatim>\<open>http.NewRequest\<close> for a request with method \<^verbatim>\<open>"GET"\<close> and hands it to
  \<^verbatim>\<open>Do\<close>; with a nil body it is \<^verbatim>\<open>Get\<close>. When \<^verbatim>\<open>http.NewRequest\<close> stores the method
  \<^verbatim>\<open>"GET"\<close> it is given and the signer leaves the method alone, every request that \<^verbatim>\<open>Put\<close>
  sends to the transport has method \<^verbatim>\<open>"GET"\<close>, not \<^verbatim>\<open>"PUT"\<close>.
\<close>

theorem Put_builds_GET_request:
  assumes "\<forall>u b r. NewRequest ''GET'' u b = Inr r \<longrightarrow> Method r = ''GET''"
    and "Sign c = Some sg"
    and "\<forall>r r' e. sg r = Return (r', e) \<longrightarrow> Method r' = Method r"
  shows "Put NewRequest tf dc c url body =
           (case NewRequest ''GET'' url body of
              Inl e \<Rightarrow> Return \<lparr>response = None, failure = Some e, sent = []\<rparr>
            | Inr req \<Rightarrow> map_outcome fst (Do tf dc c req)) \<and>
         Put NewRequest tf dc c url None = Get NewRequest tf dc c url \<and>
         (\<forall>res. Put NewRequest tf dc c url body = Return res \<longrightarrow>
            (\<forall>q \<in> set (sent res). Method q = ''GET'' \<and> Method q \<noteq> ''PUT''))"
proof (intro conjI allI impI)
  show "Put NewRequest tf dc c url body =
           (case NewRequest ''GET'' url body of
              Inl e \<Rightarrow> Return \<lparr>response = None, failure = Some e, sent = []\<rparr>
            | Inr req \<Rightarrow> map_outcome fst (Do tf dc c req))"
    by (simp add: Put_def)
  show "Put NewRequest tf dc c url None = Get NewRequest tf dc c url"
    by (simp add: Put_def Get_def)
next
  fix res
  assume ret: "Put NewRequest tf dc c url body = Return res"
  show "\<forall>q \<in> set (sent res). Method q = ''GET'' \<and> Method q \<noteq> ''PUT''"
  proof (cases "NewRequest ''GET'' url body")
    case (Inl e)
    with ret show ?thesis
      by (auto simp: Put_def)
  next
    case (Inr req)
    then have m: "Method req = ''GET''"
      using assms(1) by blast
    from ret Inr obtain rq where "Do tf dc c req = Return (res, rq)"
      by (cases "Do tf dc c req") (auto simp: Put_def)
    from Do_sent_Method [OF assms(2,3) this] m show ?thesis
      by simp
  qed
qed

theorem Put_builds_GET_request_witness:
  "Put plainNewRequest httpTimeFormat okTransport fullClient
     ''https://example.s3.amazonaws.com/foo'' (Some (PlainBody ''hello, world'')) =
     Return \<lparr>response = Some \<lparr>StatusCode = 200\<rparr>, failure = None, sent = [fetched]\<rparr> \<and>
   Method fetched = ''GET'' \<and> Method fetched \<noteq> ''PUT''"
proof -
  let ?url = "''https://example.s3.amazonaws.com/foo''"
  let ?body = "Some (PlainBody ''hello, world'')"
  have a: "\<forall>u b r. plainNewRequest ''GET'' u b = Inr r \<longrightarrow> Method r = ''GET''"
    by (auto simp: plainNewRequest_def split: if_splits)
  have b: "Sign fullClient = Some stampSigner"
    by (simp add: fullClient_def)
  have c: "\<forall>r r' e. stampSigner r = Return (r', e) \<longrightarrow> Method r' = Method r"
    by (auto simp: stampSigner_def)
  have r: "Put plainNewRequest httpTimeFormat okTransport fullClient ?url ?body =
     Return \<lparr>response = Some \<lparr>StatusCode = 200\<rparr>, failure = None, sent = [fetched]\<rparr>"
    by (simp add: Put_def plainNewRequest_def Do_def probeLength_def defaultDate_def
        fullClient_def stampSigner_def okTransport_def httpTimeFormat_fixedClock Header_Set_def
        fetched_def)
  have "\<forall>res. Put plainNewRequest httpTimeFormat okTransport fullClient ?url ?body = Return res \<longrightarrow>
            (\<forall>q \<in> set (sent res). Method q = ''GET'' \<and> Method q \<noteq> ''PUT'')"
    using Put_builds_GET_request
      [of plainNewRequest fullClient stampSigner httpTimeFormat okTransport ?url ?body] a b c
    by blast
  then have "\<forall>q \<in> set (sent \<lparr>response = Some \<lparr>StatusCode = 200\<rparr>, failure = None,
      sent = [fetched]\<rparr>). Method q = ''GET'' \<and> Method q \<noteq> ''PUT''"
    using r by blast
  then have "Method fetched = ''GET'' \<and> Method fetched \<noteq> ''PUT''"
    by simp
  with r show ?thesis ..
qed

section \<open>Properties of Signer.Sign\<close>

lemma Signer_Sign_ownSigner:
  "Signer_Sign domainSign dk ds ownSigner (putRequest None) =
     Return (authorized ''AWS OWN:example.org'', None)"
  by (simp add: Signer_Sign_def ownSigner_def ownKeys_def domainSign_def putRequest_def
      authorized_def Header_Set_def)

text \<open>
  C9. \<^verbatim>\<open>Signer.Sign\<close> signs with the keys and the service that the specification's
  resolution gives: \<^verbatim>\<open>Service.Sign\<close> is called once, on the resolved service, the request and
  the resolved keys, and its outcome is the outcome of \<^verbatim>\<open>Signer.Sign\<close> (with a nil error).
  Keys of the signer's own shadow \<^verbatim>\<open>DefaultKeys\<close>, and a service of its own shadows
  \<^verbatim>\<open>DefaultService\<close>: the result does not depend on the default. With no keys resolved,
  the dereference \<^verbatim>\<open>*keys\<close> panics.
\<close>

theorem Signer_Sign_resolution:
  "Signer_Sign S dk ds s req =
     (case effectiveKeys s dk of
        None \<Rightarrow> Panic (NilPointer ''*keys'')
      | Some k \<Rightarrow> map_outcome (\<lambda>r. (r, None)) (S (effectiveService s ds) req k)) \<and>
   (Keys s \<noteq> None \<longrightarrow> Signer_Sign S dk ds s req = Signer_Sign S dk' ds s req) \<and>
   (Service s \<noteq> None \<longrightarrow> Signer_Sign S dk ds s req = Signer_Sign S dk ds' s req)"
proof (intro conjI impI)
  show "Signer_Sign S dk ds s req =
     (case effectiveKeys s dk of
        None \<Rightarrow> Panic (NilPointer ''*keys'')
      | Some k \<Rightarrow> map_outcome (\<lambda>r. (r, None)) (S (effectiveService s ds) req k))"
  proof (cases "Keys s")
    case None
    show ?thesis
    proof (cases dk)
      case dkNone: None
      with None show ?thesis
        by (simp add: Signer_Sign_def effectiveKeys_def)
    next
      case (Some k)
      with None show ?thesis
        by (cases "Service s"; cases "S ds req k"; cases "S (Service s) req k")
           (simp_all add: Signer_Sign_def effectiveKeys_def effectiveService_def)
    qed
  next
    case (Some k)
    then show ?thesis
      by (cases "Service s"; cases "S ds req k"; cases "S (Service s) req k")
         (simp_all add: Signer_Sign_def effectiveKeys_def effectiveService_def)
  qed
next
  assume "Keys s \<noteq> None"
  then show "Signer_Sign S dk ds s req = Signer_Sign S dk' ds s req"
    by (cases "Keys s") (simp_all add: Signer_Sign_def)
next
  assume "Service s \<noteq> None"
  then show "Signer_Sign S dk ds s req = Signer_Sign S dk ds' s req"
    by (cases "Service s") (simp_all add: Signer_Sign_def)
qed

theorem Signer_Sign_resolution_witness:
  "Signer_Sign domainSign (Some envKeys) (Some ''amazonaws.com'') ownSigner (putRequest None) =
     Signer_Sign domainSign None (Some ''amazonaws.com'') ownSigner (putRequest None) \<and>
   Signer_Sign domainSign None (Some ''amazonaws.com'') ownSigner (putRequest None) =
     Signer_Sign domainSign None None ownSigner (putRequest None) \<and>
   Signer_Sign domainSign (Some envKeys) (Some ''amazonaws.com'') noSigner (putRequest None) =
     Return (authorized ''AWS AK:amazonaws.com'', None)"
proof (intro conjI)
  have k: "Keys ownSigner \<noteq> None" and v: "Service ownSigner \<noteq> None"
    by (simp_all add: ownSigner_def)
  show "Signer_Sign domainSign (Some envKeys) (Some ''amazonaws.com'') ownSigner (putRequest None) =
        Signer_Sign domainSign None (Some ''amazonaws.com'') ownSigner (putRequest None)"
    using Signer_Sign_resolution
      [of domainSign "Some envKeys" "Some ''amazonaws.com''" ownSigner "putRequest None" None] k
    by blast
  show "Signer_Sign domainSign None (Some ''amazonaws.com'') ownSigner (putRequest None) =
        Signer_Sign domainSign None None ownSigner (putRequest None)"
    using Signer_Sign_resolution
      [of domainSign None "Some ''amazonaws.com''" ownSigner "putRequest None" _ None] v
    by blast
  have "Signer_Sign domainSign (Some envKeys) (Some ''amazonaws.com'') noSigner (putRequest None) =
     (case effectiveKeys noSigner (Some envKeys) of
        None \<Rightarrow> Panic (NilPointer ''*keys'')
      | Some k \<Rightarrow> map_outcome (\<lambda>r. (r, None))
          (domainSign (effectiveService noSigner (Some ''amazonaws.com'')) (putRequest None) k))"
    using Signer_Sign_resolution
      [of domainSign "Some envKeys" "Some ''amazonaws.com''" noSigner "putRequest None"]
    by blast
  also have "\<dots> = Return (authorized ''AWS AK:amazonaws.com'', None)"
    by (simp add: effectiveKeys_def effectiveService_def noSigner_def domainSign_def envKeys_def
        putRequest_def authorized_def Header_Set_def)
  finally show "Signer_Sign domainSign (Some envKeys) (Some ''amazonaws.com'') noSigner
      (putRequest None) = Return (authorized ''AWS AK:amazonaws.com'', None)" .
qed

text \<open>
  C2, as the code has it. \<^verbatim>\<open>Signer.Sign\<close> never returns a non-nil error. When the signer's
  \<open>Keys\<close> and \<^verbatim>\<open>DefaultKeys\<close> are both nil, it panics at \<^verbatim>\<open>*keys\<close>. When keys are resolved,
  empty or not, \<^verbatim>\<open>Service.Sign\<close> is called with them, and if that call returns,
  \<^verbatim>\<open>Signer.Sign\<close> returns nil.
\<close>

theorem Signer_Sign_returns_no_error:
  "(\<forall>r e. Signer_Sign S dk ds s req \<noteq> Return (r, Some e)) \<and>
   (Keys s = None \<and> dk = None \<longrightarrow> Signer_Sign S dk ds s req = Panic (NilPointer ''*keys'')) \<and>
   (\<forall>k r. (Keys s = Some k \<or> Keys s = None \<and> dk = Some k) \<and>
          S (case Service s of None \<Rightarrow> ds | Some v \<Rightarrow> Some v) req k = Return r \<longrightarrow>
          Signer_Sign S dk ds s req = Return (r, None))"
  by (auto simp: Signer_Sign_def split: option.splits outcome.splits)

theorem Signer_Sign_returns_no_error_witness:
  "Signer_Sign domainSign None (Some ''amazonaws.com'') noSigner (putRequest None) =
     Panic (NilPointer ''*keys'') \<and>
   Signer_Sign domainSign (Some emptyKeys) (Some ''amazonaws.com'') noSigner (putRequest None) =
     Return (authorized ''AWS :amazonaws.com'', None)"
proof -
  have "Keys noSigner = None \<and> (None :: Keys option) = None"
    by (simp add: noSigner_def)
  then have "Signer_Sign domainSign None (Some ''amazonaws.com'') noSigner (putRequest None) =
     Panic (NilPointer ''*keys'')"
    using Signer_Sign_returns_no_error
      [of domainSign None "Some ''amazonaws.com''" noSigner "putRequest None"]
    by blast
  moreover have "(Keys noSigner = Some emptyKeys \<or>
        Keys noSigner = None \<and> Some emptyKeys = Some emptyKeys) \<and>
      domainSign (case Service noSigner of None \<Rightarrow> Some ''amazonaws.com'' | Some v \<Rightarrow> Some v)
        (putRequest None) emptyKeys = Return (authorized ''AWS :amazonaws.com'')"
    by (simp add: noSigner_def domainSign_def emptyKeys_def putRequest_def authorized_def
        Header_Set_def)
  then have "Signer_Sign domainSign (Some emptyKeys) (Some ''amazonaws.com'') noSigner
      (putRequest None) = Return (authorized ''AWS :amazonaws.com'', None)"
    using Signer_Sign_returns_no_error
      [of domainSign "Some emptyKeys" "Some ''amazonaws.com''" noSigner "putRequest None"]
    by blast
  ultimately show ?thesis ..
qed

text \<open>
  C2, as stated, fails: with no keys anywhere, \<^verbatim>\<open>Signer.Sign\<close> does not return an error
  but panics; with an empty pair of keys as \<^verbatim>\<open>DefaultKeys\<close>, it signs and returns nil.
\<close>

theorem Signer_Sign_missing_credentials_counterexample:
  "Signer_Sign domainSign None (Some ''amazonaws.com'') noSigner (putRequest None) =
     Panic (NilPointer ''*keys'') \<and>
   Signer_Sign domainSign (Some emptyKeys) (Some ''amazonaws.com'') noSigner (putRequest None) =
     Return (authorized ''AWS :amazonaws.com'', None)"
  by (simp add: Signer_Sign_def noSigner_def domainSign_def emptyKeys_def putRequest_def
      authorized_def Header_Set_def)

end
